theory Spec2Isabelle
  imports Main "HOL-Library.Sublist"
begin

section \<open>JavaScript values met by the translation walk\<close>

text \<open>
  \<^verbatim>\<open>TranslationDict = { [key: string]: string | TranslationDict }\<close> of \<^verbatim>\<open>i18n.ts\<close>:
  a tree whose leaves are strings and whose inner nodes are dictionaries. A dictionary is
  the table of own properties of an ordinary object, looked up with \<open>map_of\<close>.
\<close>

datatype TranslationNode = Str string | Dict "(string \<times> TranslationNode) list"

type_synonym TranslationDict = "(string \<times> TranslationNode) list"

text \<open>
  The loop variable \<^verbatim>\<open>value\<close> of \<^verbatim>\<open>t\<close> and \<^verbatim>\<open>hasTranslation\<close> is declared
  \<^verbatim>\<open>string | TranslationDict\<close>, but the operators the loops use, \<^verbatim>\<open>k in value\<close> and
  \<^verbatim>\<open>value[k]\<close>, follow the prototype chain of the object at run time. Every dictionary is
  an ordinary object, so its prototype is \<^verbatim>\<open>Object.prototype\<close>, whose own properties are
  built-in functions and the accessor \<^verbatim>\<open>__proto__\<close>; the prototype of
  \<^verbatim>\<open>Object.prototype\<close> is \<^verbatim>\<open>null\<close>. These are the values the variable can hold.
\<close>

datatype js_value =
    JString string
  | JDict TranslationDict
  | ObjectPrototype
  | BuiltinFunction
  | Null
  | Undefined

datatype js_error = TypeError | Error string

text \<open>The own property names of \<^verbatim>\<open>Object.prototype\<close>.\<close>

definition object_prototype_keys :: "string list" where
  "object_prototype_keys =
     [''constructor'', ''__defineGetter__'', ''__defineSetter__'', ''hasOwnProperty'',
      ''__lookupGetter__'', ''__lookupSetter__'', ''isPrototypeOf'', ''propertyIsEnumerable'',
      ''toString'', ''valueOf'', ''__proto__'', ''toLocaleString'']"

text \<open>\<^verbatim>\<open>typeof value\<close>; \<^verbatim>\<open>typeof null\<close> is \<^verbatim>\<open>'object'\<close>.\<close>

fun typeof :: "js_value \<Rightarrow> string" where
  "typeof (JString s) = ''string''"
| "typeof (JDict d) = ''object''"
| "typeof ObjectPrototype = ''object''"
| "typeof BuiltinFunction = ''function''"
| "typeof Null = ''object''"
| "typeof Undefined = ''undefined''"

fun of_node :: "TranslationNode \<Rightarrow> js_value" where
  "of_node (Str s) = JString s"
| "of_node (Dict d) = JDict d"

text \<open>
  \<^verbatim>\<open>k in value\<close>: own properties first, then the prototype chain. With a right operand
  that is not an object (\<^verbatim>\<open>null\<close>, \<^verbatim>\<open>undefined\<close>, a primitive string) the operator
  throws a \<^verbatim>\<open>TypeError\<close>.
\<close>

fun js_in :: "string \<Rightarrow> js_value \<Rightarrow> js_error + bool" where
  "js_in k (JDict d) = Inr (map_of d k \<noteq> None \<or> k \<in> set object_prototype_keys)"
| "js_in k ObjectPrototype = Inr (k \<in> set object_prototype_keys)"
| "js_in k BuiltinFunction = Inr False"
| "js_in k (JString s) = Inl TypeError"
| "js_in k Null = Inl TypeError"
| "js_in k Undefined = Inl TypeError"

text \<open>
  \<^verbatim>\<open>value[k]\<close> on an object: the own property if there is one, else the property
  inherited from \<^verbatim>\<open>Object.prototype\<close>. The accessor \<^verbatim>\<open>__proto__\<close> returns the prototype
  of the object it is read from. The loops read \<^verbatim>\<open>value[k]\<close> only after
  \<^verbatim>\<open>typeof value === 'object' && k in value\<close> held.
\<close>

fun js_get :: "js_value \<Rightarrow> string \<Rightarrow> js_value" where
  "js_get (JDict d) k =
     (case map_of d k of
        Some n \<Rightarrow> of_node n
      | None \<Rightarrow>
          if k = ''__proto__'' then ObjectPrototype
          else if k \<in> set object_prototype_keys then BuiltinFunction
          else Undefined)"
| "js_get ObjectPrototype k =
     (if k = ''__proto__'' then Null
      else if k \<in> set object_prototype_keys then BuiltinFunction
      else Undefined)"
| "js_get v k = Undefined"

section \<open>The translator (\<^verbatim>\<open>i18n.ts\<close>)\<close>

datatype LanguageCode = En | ZhCN | Zh

text \<open>
  \<^verbatim>\<open>translations: Record<LanguageCode, TranslationDict>\<close>. The dictionary \<^verbatim>\<open>zhCN\<close> is
  imported from \<^verbatim>\<open>./locales/zh-CN\<close>, so it is a parameter here. The result is an option
  because the source tests the entry for being there. (The source's name is a keyword
  of Isabelle, hence the suffix.)
\<close>

fun translations_of :: "TranslationDict \<Rightarrow> LanguageCode \<Rightarrow> TranslationDict option" where
  "translations_of zhCN En = Some []"
| "translations_of zhCN ZhCN = Some zhCN"
| "translations_of zhCN Zh = Some zhCN"

text \<open>\<^verbatim>\<open>key.split('.')\<close>: the segments between dots; never the empty list.\<close>

fun split_dot :: "string \<Rightarrow> string list" where
  "split_dot [] = [[]]"
| "split_dot (c # cs) =
     (if c = CHR ''.'' then [] # split_dot cs
      else (case split_dot cs of
              [] \<Rightarrow> [[c]]
            | w # ws \<Rightarrow> (c # w) # ws))"

text \<open>
  The loop of \<^verbatim>\<open>t\<close> over the segments, with what follows it:
  \<^verbatim>\<open>
  for (const k of keys) {
      if (typeof value === 'object' && k in value) { value = value[k]; }
      else { return key; }
  }
  return typeof value === 'string' ? value : key;
  \<close>
\<close>

fun t_walk :: "string \<Rightarrow> string list \<Rightarrow> js_value \<Rightarrow> js_error + string" where
  "t_walk key [] v = (case v of JString s \<Rightarrow> Inr s | _ \<Rightarrow> Inr key)"
| "t_walk key (k # ks) v =
     (if typeof v = ''object'' then
        (case js_in k v of
           Inl e \<Rightarrow> Inl e
         | Inr True \<Rightarrow> t_walk key ks (js_get v k)
         | Inr False \<Rightarrow> Inr key)
      else Inr key)"

text \<open>
  \<^verbatim>\<open>t(key, lang?)\<close>. The module variable \<^verbatim>\<open>currentLanguage\<close> is the argument \<open>cur\<close>;
  \<^verbatim>\<open>lang || currentLanguage\<close> takes \<open>lang\<close> when it is given, as every language code is
  a non-empty string.
\<close>

definition t :: "TranslationDict \<Rightarrow> LanguageCode \<Rightarrow> string \<Rightarrow> LanguageCode option \<Rightarrow> js_error + string" where
  "t zhCN cur key lang =
     (let language = (case lang of Some l \<Rightarrow> l | None \<Rightarrow> cur) in
      if language = En then Inr key
      else (case translations_of zhCN language of
              None \<Rightarrow> Inr key
            | Some langTranslations \<Rightarrow> t_walk key (split_dot key) (JDict langTranslations)))"

text \<open>The loop of \<^verbatim>\<open>hasTranslation\<close>: the same steps, answering a boolean.\<close>

fun has_walk :: "string list \<Rightarrow> js_value \<Rightarrow> js_error + bool" where
  "has_walk [] v = Inr (typeof v = ''string'')"
| "has_walk (k # ks) v =
     (if typeof v = ''object'' then
        (case js_in k v of
           Inl e \<Rightarrow> Inl e
         | Inr True \<Rightarrow> has_walk ks (js_get v k)
         | Inr False \<Rightarrow> Inr False)
      else Inr False)"

definition hasTranslation :: "TranslationDict \<Rightarrow> LanguageCode \<Rightarrow> string \<Rightarrow> LanguageCode option \<Rightarrow> js_error + bool" where
  "hasTranslation zhCN cur key lang =
     (let language = (case lang of Some l \<Rightarrow> l | None \<Rightarrow> cur) in
      case translations_of zhCN language of
        None \<Rightarrow> Inr False
      | Some langTranslations \<Rightarrow> has_walk (split_dot key) (JDict langTranslations))"

text \<open>
  The walk as the specification words it: descend the dictionary one segment at a time
  through its entries; a hit is a path that ends at a string.
\<close>

fun path_leaf :: "TranslationDict \<Rightarrow> string list \<Rightarrow> string option" where
  "path_leaf d [] = None"
| "path_leaf d (k # ks) =
     (case map_of d k of
        None \<Rightarrow> None
      | Some (Str s) \<Rightarrow> (if ks = [] then Some s else None)
      | Some (Dict d') \<Rightarrow> path_leaf d' ks)"

text \<open>A small dictionary of the shape of the Chinese one.\<close>

definition sample_zhCN :: TranslationDict where
  "sample_zhCN =
     [(''settings'',
        Dict [(''section'', Dict [(''connect'', Str ''Lianjie'')]),
              (''apiKey'', Dict [(''name'', Str ''Miyao'')])])]"

section \<open>Strings and numbers of the settings tab\<close>

text \<open>
  \<^verbatim>\<open>n.toString()\<close> of a number that is an integer: its decimal digits, with a minus
  sign when negative. (JavaScript prints integers this way below \<open>10^21\<close>; the
  identifiers and file counts of this program are far below.)
\<close>

definition digit_char :: "nat \<Rightarrow> char" where
  "digit_char d = ''0123456789'' ! (d mod 10)"

fun nat_digits :: "nat \<Rightarrow> string" where
  "nat_digits n = (if n < 10 then [digit_char n] else nat_digits (n div 10) @ [digit_char n])"

declare nat_digits.simps [simp del]

definition number_toString :: "int \<Rightarrow> string" where
  "number_toString n = (if n < 0 then CHR ''-'' # nat_digits (nat (- n)) else nat_digits (nat n))"

text \<open>\<^verbatim>\<open>s.replace(pattern, replacement)\<close> with a string pattern: the first occurrence only.\<close>

fun replace_first :: "string \<Rightarrow> string \<Rightarrow> string \<Rightarrow> string" where
  "replace_first pat rep [] = (if pat = [] then rep else [])"
| "replace_first pat rep (c # cs) =
     (if prefix pat (c # cs) then rep @ drop (length pat) (c # cs)
      else c # replace_first pat rep cs)"

text \<open>
  \<^verbatim>\<open>value.trim()\<close> drops white space at both ends (the ASCII white space here:
  tab, line feed, vertical tab, form feed, carriage return, space);
  \<^verbatim>\<open>.replace(/\/$/, '')\<close> drops one slash at the end.
\<close>

definition is_space :: "char \<Rightarrow> bool" where
  "is_space c \<longleftrightarrow> c \<in> set [CHR 0x09, CHR 0x0A, CHR 0x0B, CHR 0x0C, CHR 0x0D, CHR '' '']"

definition trim :: "string \<Rightarrow> string" where
  "trim s = rev (dropWhile is_space (rev (dropWhile is_space s)))"

definition strip_trailing_slash :: "string \<Rightarrow> string" where
  "strip_trailing_slash s = (if s \<noteq> [] \<and> last s = CHR ''/'' then butlast s else s)"

text \<open>\<^verbatim>\<open>x || ''\<close> on \<^verbatim>\<open>string | null\<close>: the empty string is falsy too.\<close>

fun or_empty :: "string option \<Rightarrow> string" where
  "or_empty None = []"
| "or_empty (Some s) = s"

text \<open>\<^verbatim>\<open>xs.indexOf(x)\<close>: the first position of \<open>x\<close>, or \<open>-1\<close>.\<close>

fun indexOf :: "'a list \<Rightarrow> 'a \<Rightarrow> int" where
  "indexOf [] x = - 1"
| "indexOf (y # ys) x =
     (if y = x then 0 else (let i = indexOf ys x in if i < 0 then - 1 else i + 1))"

section \<open>The settings (\<^verbatim>\<open>settings.ts\<close>)\<close>

record UserInfo =
  username :: "string option"
  photo :: "string option"
  is_active :: "bool option"
  has_documents :: "bool option"
  email :: "string option"

record SyncFileTypes =
  markdown :: bool
  images :: bool
  pdf :: bool

text \<open>\<^verbatim>\<open>ModelOption { id; name }\<close>; the fields carry a prefix, \<open>id\<close> being a constant of HOL.\<close>

record ModelOption =
  model_id :: string
  model_name :: string

text \<open>
  A field that may be missing (\<^verbatim>\<open>undefined\<close>), \<^verbatim>\<open>null\<close> or there:
  \<^verbatim>\<open>selected_chat_model_config?: number\<close>, which the source tests against both.
\<close>

datatype 'a optional = Missing | IsNull | Present 'a

record ServerUserConfig =
  selected_chat_model_config :: "int optional"

datatype FileAccessMode = AccessNone | AccessRead | AccessWrite

type_synonym TFile = string

record KhojSetting =
  resultsCount :: int
  khojUrl :: string
  khojApiKey :: string
  connectedToBackend :: bool
  autoConfigure :: bool
  lastSync :: "(TFile \<times> int) list"
  syncFileType :: SyncFileTypes
  userInfo :: "UserInfo option"
  syncFolders :: "string list"
  excludeFolders :: "string list"
  syncInterval :: int
  autoVoiceResponse :: bool
  fileAccessMode :: FileAccessMode
  selectedChatModelId :: "string option"
  availableChatModels :: "ModelOption list"

definition DEFAULT_SETTINGS :: KhojSetting where
  "DEFAULT_SETTINGS =
     \<lparr> resultsCount = 15,
       khojUrl = ''https://app.khoj.dev'',
       khojApiKey = [],
       connectedToBackend = False,
       autoConfigure = True,
       lastSync = [],
       syncFileType = \<lparr> markdown = True, images = True, pdf = True \<rparr>,
       userInfo = None,
       syncFolders = [],
       excludeFolders = [],
       syncInterval = 60,
       autoVoiceResponse = True,
       fileAccessMode = AccessRead,
       selectedChatModelId = None,
       availableChatModels = [] \<rparr>"

section \<open>The collaborators of \<^verbatim>\<open>./utils\<close>\<close>

text \<open>
  \<^verbatim>\<open>canConnectToBackend\<close>, \<^verbatim>\<open>fetchChatModels\<close> and \<^verbatim>\<open>fetchUserServerSettings\<close> are
  imported from \<^verbatim>\<open>./utils\<close>; the settings tab only calls them. They are parameters of
  the model, gathered in one record; each returns what its awaited promise resolves to.
\<close>

record connect_result =
  res_connectedToBackend :: bool
  res_userInfo :: "UserInfo option"
  res_statusMessage :: string

record backend =
  canConnectToBackend :: "string \<Rightarrow> string \<Rightarrow> connect_result"
  fetchChatModels :: "KhojSetting \<Rightarrow> ModelOption list"
  fetchUserServerSettings :: "KhojSetting \<Rightarrow> ServerUserConfig option"

text \<open>
  Modelled from the spec: \<^verbatim>\<open>updateServerChatModel\<close> of \<^verbatim>\<open>./utils\<close> is not among the
  sources; the settings tab calls it with the chosen id and the settings object and
  reads a success flag. The specification gives it as
  \<^verbatim>\<open>pushServerPreference(modelId, config) -> bool\<close> and says that local state is the
  source of truth only after a push succeeds, and that no optimistic commit survives a
  failed push. So: when the server accepts the push, the settings object mirrors the new
  id and the flag is true; when it does not, the settings object is left as it was and
  the flag is false. Whether the server accepts is the argument \<open>accepted\<close>.
\<close>

definition updateServerChatModel :: "bool \<Rightarrow> string \<Rightarrow> KhojSetting \<Rightarrow> bool \<times> KhojSetting" where
  "updateServerChatModel accepted modelId s =
     (if accepted then (True, s\<lparr>selectedChatModelId := Some modelId\<rparr>) else (False, s))"

section \<open>The state of the settings tab\<close>

text \<open>
  What \<^verbatim>\<open>renderChatModelDropdown\<close> puts into the chat model setting: a disabled text
  when not connected, a refresh button while there are no models, else a dropdown with
  its options (value and label) and the value it shows.
\<close>

datatype chat_model_control =
    DisabledText string
  | RefreshButton string
  | Dropdown "(string \<times> string) list" string

text \<open>The two elements of the force-sync progress display, with the properties the code sets.\<close>

record progress_el =
  el_display :: string
  el_value :: int
  el_max :: int

record text_el =
  txt_display :: string
  txt_textContent :: string

text \<open>
  The tab: the settings object of the plugin, what \<^verbatim>\<open>saveSettings\<close> last wrote, the
  notices shown, the chat model control, the force-sync button and its setting, the
  interval timers of the window, and the progress elements as \<^verbatim>\<open>document.getElementById\<close>
  finds them (\<open>None\<close> when the element is not in the document). Tooltips, status icons
  and the folder list elements are not part of the state.
\<close>

record tab =
  settings :: KhojSetting
  persisted :: "KhojSetting option"
  notices :: "string list"
  chatModelControl :: "chat_model_control option"
  storageRefreshes :: nat
  buttonText :: string
  buttonCta :: bool
  indexVaultDisabled :: bool
  activeIntervals :: "nat list"
  nextIntervalId :: nat
  syncProgressEl :: "progress_el option"
  syncProgressText :: "text_el option"

text \<open>
  \<^verbatim>\<open>this.plugin.saveSettings()\<close> writes the settings object out;
  \<^verbatim>\<open>this.refreshStorageDisplay()\<close> asks the metrics collaborator for new figures, which
  the model only counts; \<^verbatim>\<open>new Notice(text)\<close> shows a message.
\<close>

definition saveSettings :: "tab \<Rightarrow> tab" where
  "saveSettings st = st\<lparr>persisted := Some (settings st)\<rparr>"

definition refreshStorageDisplay :: "tab \<Rightarrow> tab" where
  "refreshStorageDisplay st = st\<lparr>storageRefreshes := Suc (storageRefreshes st)\<rparr>"

definition Notice :: "string \<Rightarrow> tab \<Rightarrow> tab" where
  "Notice msg st = st\<lparr>notices := notices st @ [msg]\<rparr>"

section \<open>The chat model preference\<close>

text \<open>
  In the handlers below \<open>tr\<close> is the translator at the current language, applied to the
  literal keys of the source.
\<close>

definition renderChatModelDropdown :: "(string \<Rightarrow> string) \<Rightarrow> tab \<Rightarrow> tab" where
  "renderChatModelDropdown tr st =
     (let s = settings st in
      if \<not> connectedToBackend s then
        st\<lparr>chatModelControl := Some (DisabledText (tr ''settings.chatModel.text.notConnected''))\<rparr>
      else if length (availableChatModels s) = 0 \<and> connectedToBackend s then
        st\<lparr>chatModelControl := Some (RefreshButton (tr ''settings.chatModel.button.refresh''))\<rparr>
      else
        st\<lparr>chatModelControl := Some (Dropdown
             (([], tr ''settings.chatModel.option.default'')
                # map (\<lambda>m. (model_id m, model_name m)) (availableChatModels s))
             (or_empty (selectedChatModelId s)))\<rparr>)"

text \<open>
  \<^verbatim>\<open>refreshModelsAndServerPreference\<close>. The two fetches are awaited together and the
  rest runs when both have resolved.
\<close>

definition refreshModelsAndServerPreference :: "(string \<Rightarrow> string) \<Rightarrow> backend \<Rightarrow> tab \<Rightarrow> tab" where
  "refreshModelsAndServerPreference tr B st =
     (let st1 =
        (if connectedToBackend (settings st) then
           (let availableModels = fetchChatModels B (settings st);
                serverConfig = fetchUserServerSettings B (settings st);
                s1 = (settings st)\<lparr>availableChatModels := availableModels\<rparr>;
                serverSelectedModelId =
                  (case serverConfig of
                     None \<Rightarrow> None
                   | Some c \<Rightarrow>
                       (case selected_chat_model_config c of
                          Present n \<Rightarrow>
                            (let serverModelIdStr = number_toString n in
                             if list_ex (\<lambda>m. model_id m = serverModelIdStr) (availableChatModels s1)
                             then Some serverModelIdStr
                             else None)
                        | Missing \<Rightarrow> None
                        | IsNull \<Rightarrow> None))
            in st\<lparr>settings := s1\<lparr>selectedChatModelId := serverSelectedModelId\<rparr>\<rparr>)
         else
           st\<lparr>settings := (settings st)\<lparr>availableChatModels := [], selectedChatModelId := None\<rparr>\<rparr>)
      in renderChatModelDropdown tr (saveSettings st1))"

text \<open>
  The handlers of the API key and of the URL text fields: store the edited value, probe
  the backend, clear models and selection when the probe fails, save, reconcile.
\<close>

definition apiKey_onChange :: "(string \<Rightarrow> string) \<Rightarrow> backend \<Rightarrow> string \<Rightarrow> tab \<Rightarrow> tab" where
  "apiKey_onChange tr B v st =
     (let s1 = (settings st)\<lparr>khojApiKey := trim v\<rparr>;
          r = canConnectToBackend B (khojUrl s1) (khojApiKey s1);
          s2 = s1\<lparr>connectedToBackend := res_connectedToBackend r, userInfo := res_userInfo r\<rparr>;
          s3 = (if \<not> connectedToBackend s2
                then s2\<lparr>availableChatModels := [], selectedChatModelId := None\<rparr>
                else s2)
      in refreshModelsAndServerPreference tr B (saveSettings (st\<lparr>settings := s3\<rparr>)))"

definition khojUrl_onChange :: "(string \<Rightarrow> string) \<Rightarrow> backend \<Rightarrow> string \<Rightarrow> tab \<Rightarrow> tab" where
  "khojUrl_onChange tr B v st =
     (let s1 = (settings st)\<lparr>khojUrl := strip_trailing_slash (trim v)\<rparr>;
          r = canConnectToBackend B (khojUrl s1) (khojApiKey s1);
          s2 = s1\<lparr>connectedToBackend := res_connectedToBackend r, userInfo := res_userInfo r\<rparr>;
          s3 = (if \<not> connectedToBackend s2
                then s2\<lparr>availableChatModels := [], selectedChatModelId := None\<rparr>
                else s2)
      in refreshModelsAndServerPreference tr B (saveSettings (st\<lparr>settings := s3\<rparr>)))"

text \<open>
  \<^verbatim>\<open>dropdown.setValue(v)\<close> on the dropdown the handler was made for; it shows nothing
  when the control has been replaced since.
\<close>

fun dropdown_setValue :: "string \<Rightarrow> tab \<Rightarrow> tab" where
  "dropdown_setValue v st =
     (case chatModelControl st of
        Some (Dropdown opts cur) \<Rightarrow> st\<lparr>chatModelControl := Some (Dropdown opts v)\<rparr>
      | _ \<Rightarrow> st)"

text \<open>The value the chat model dropdown shows, if there is a dropdown.\<close>

fun displayed_selection :: "tab \<Rightarrow> string option" where
  "displayed_selection st =
     (case chatModelControl st of
        Some (Dropdown opts cur) \<Rightarrow> Some cur
      | _ \<Rightarrow> None)"

text \<open>
  The \<^verbatim>\<open>onChange\<close> handler of the dropdown. \<open>push\<close> is \<^verbatim>\<open>updateServerChatModel\<close>,
  which receives the settings object and may write to it.
\<close>

definition chatModel_onChange :: "(string \<Rightarrow> KhojSetting \<Rightarrow> bool \<times> KhojSetting) \<Rightarrow> string \<Rightarrow> tab \<Rightarrow> tab" where
  "chatModel_onChange push v st =
     (let (success, s') = push v (settings st);
          st1 = st\<lparr>settings := s'\<rparr>
      in if success then saveSettings st1
         else dropdown_setValue (or_empty (selectedChatModelId (settings st1))) st1)"

text \<open>The user picks \<open>v\<close> in the dropdown: the dropdown shows it and the handler runs.\<close>

definition user_selects :: "(string \<Rightarrow> KhojSetting \<Rightarrow> bool \<times> KhojSetting) \<Rightarrow> string \<Rightarrow> tab \<Rightarrow> tab" where
  "user_selects push v st = chatModel_onChange push v (dropdown_setValue v st)"

section \<open>The folder lists\<close>

text \<open>
  The callbacks of the two folder choosers and the remove buttons of the two lists.
  \<^verbatim>\<open>xs.includes(x)\<close> is membership, \<^verbatim>\<open>xs.push(x)\<close> appends.
\<close>

definition includeFolder_onChoose :: "string \<Rightarrow> tab \<Rightarrow> tab" where
  "includeFolder_onChoose folder st =
     (if folder \<notin> set (syncFolders (settings st)) then
        refreshStorageDisplay (saveSettings
          (st\<lparr>settings := (settings st)\<lparr>syncFolders := syncFolders (settings st) @ [folder]\<rparr>\<rparr>))
      else st)"

definition excludeFolder_onChoose :: "(string \<Rightarrow> string) \<Rightarrow> string \<Rightarrow> tab \<Rightarrow> tab" where
  "excludeFolder_onChoose tr folder st =
     (if folder = [] then Notice (tr ''settings.excludeFolders.cannotExcludeRoot'') st
      else if folder \<notin> set (excludeFolders (settings st)) then
        refreshStorageDisplay (saveSettings
          (st\<lparr>settings := (settings st)\<lparr>excludeFolders := excludeFolders (settings st) @ [folder]\<rparr>\<rparr>))
      else st)"

definition includeFolder_onRemove :: "string \<Rightarrow> tab \<Rightarrow> tab" where
  "includeFolder_onRemove folder st =
     refreshStorageDisplay (saveSettings
       (st\<lparr>settings := (settings st)\<lparr>syncFolders := filter (\<lambda>f. f \<noteq> folder) (syncFolders (settings st))\<rparr>\<rparr>))"

definition excludeFolder_onRemove :: "string \<Rightarrow> tab \<Rightarrow> tab" where
  "excludeFolder_onRemove folder st =
     refreshStorageDisplay (saveSettings
       (st\<lparr>settings := (settings st)\<lparr>excludeFolders := filter (\<lambda>f. f \<noteq> folder) (excludeFolders (settings st))\<rparr>\<rparr>))"

text \<open>A sequence of user actions on the folder lists.\<close>

datatype folder_op = AddInclude string | RemoveInclude string | AddExclude string | RemoveExclude string

fun apply_folder_op :: "(string \<Rightarrow> string) \<Rightarrow> folder_op \<Rightarrow> tab \<Rightarrow> tab" where
  "apply_folder_op tr (AddInclude f) st = includeFolder_onChoose f st"
| "apply_folder_op tr (RemoveInclude f) st = includeFolder_onRemove f st"
| "apply_folder_op tr (AddExclude f) st = excludeFolder_onChoose tr f st"
| "apply_folder_op tr (RemoveExclude f) st = excludeFolder_onRemove f st"

fun apply_folder_ops :: "(string \<Rightarrow> string) \<Rightarrow> folder_op list \<Rightarrow> tab \<Rightarrow> tab" where
  "apply_folder_ops tr [] st = st"
| "apply_folder_ops tr (x # xs) st = apply_folder_ops tr xs (apply_folder_op tr x st)"

section \<open>Force sync and its progress display\<close>

text \<open>
  The eight moon glyphs of the button animation, in the order of the source, as their
  UTF-8 bytes (each is \<open>F0 9F 8C xx\<close>).
\<close>

definition moon :: "char \<Rightarrow> string" where
  "moon c = [CHR 0xF0, CHR 0x9F, CHR 0x8C, c]"

definition phases :: "string list" where
  "phases = map moon [CHR 0x91, CHR 0x98, CHR 0x97, CHR 0x96, CHR 0x95, CHR 0x94, CHR 0x93, CHR 0x92]"

text \<open>
  \<^verbatim>\<open>onProgress({processed, total})\<close>: looks both elements up and returns when one is not
  there; else sets the maximum, then the value from the maximum just set, then the text.
  (\<open>total\<close> is a constant of HOL, hence the prime.)
\<close>

definition onProgress :: "(string \<Rightarrow> string) \<Rightarrow> int \<Rightarrow> int \<Rightarrow> tab \<Rightarrow> tab" where
  "onProgress tr processed total' st =
     (case (syncProgressEl st, syncProgressText st) of
        (Some el, Some txt) \<Rightarrow>
          (let el1 = el\<lparr>el_max := max total' 1\<rparr>;
               el2 = el1\<lparr>el_value := min processed (el_max el1)\<rparr>;
               txt1 = txt\<lparr>txt_textContent :=
                        replace_first ''{total}'' (number_toString total')
                          (replace_first ''{processed}'' (number_toString processed)
                             (tr ''settings.forceSync.progress.syncing''))\<rparr>
           in st\<lparr>syncProgressEl := Some el2, syncProgressText := Some txt1\<rparr>)
      | _ \<Rightarrow> st)"

text \<open>The callback of the interval timer: the next moon phase, while the button says updating.\<close>

definition progress_indicator_tick :: "(string \<Rightarrow> string) \<Rightarrow> tab \<Rightarrow> tab" where
  "progress_indicator_tick tr st =
     (let updatingPrefix = tr ''settings.forceSync.button.updating'' @ '' '' in
      if prefix updatingPrefix (buttonText st) then
        (let currentPhase = replace_first updatingPrefix [] (buttonText st);
             currentIndex = indexOf phases currentPhase;
             nextIndex = (currentIndex + 1) mod int (length phases)
         in st\<lparr>buttonText := updatingPrefix @ phases ! nat nextIndex\<rparr>)
      else st)"

text \<open>
  \<^verbatim>\<open>window.setInterval\<close> starts a timer and returns its id;
  \<^verbatim>\<open>window.clearInterval(id)\<close> stops it. (\<^verbatim>\<open>registerInterval\<close> only tells the plugin
  to stop the timer when the plugin is unloaded.)
\<close>

definition setInterval :: "tab \<Rightarrow> nat \<times> tab" where
  "setInterval st =
     (nextIntervalId st,
      st\<lparr>activeIntervals := nextIntervalId st # activeIntervals st,
         nextIntervalId := Suc (nextIntervalId st)\<rparr>)"

definition clearInterval :: "nat \<Rightarrow> tab \<Rightarrow> tab" where
  "clearInterval i st = st\<lparr>activeIntervals := filter (\<lambda>j. j \<noteq> i) (activeIntervals st)\<rparr>"

text \<open>
  \<^verbatim>\<open>updateContentIndex\<close> is imported from \<^verbatim>\<open>./utils\<close>. While the handler awaits it, the
  collaborator calls \<^verbatim>\<open>onProgress\<close> and the timer fires; then the call returns the new
  \<^verbatim>\<open>lastSync\<close> or throws. A run is that sequence of events with its outcome, and the
  collaborator is a parameter: from the settings, \<^verbatim>\<open>lastSync\<close> and the two flags to a
  run.
\<close>

datatype sync_event = Progress int int | Tick

type_synonym sync_run = "sync_event list \<times> (js_error + (TFile \<times> int) list)"

fun sync_step :: "(string \<Rightarrow> string) \<Rightarrow> nat \<Rightarrow> sync_event \<Rightarrow> tab \<Rightarrow> tab" where
  "sync_step tr timer (Progress processed total') st = onProgress tr processed total' st"
| "sync_step tr timer Tick st =
     (if timer \<in> set (activeIntervals st) then progress_indicator_tick tr st else st)"

fun sync_steps :: "(string \<Rightarrow> string) \<Rightarrow> nat \<Rightarrow> sync_event list \<Rightarrow> tab \<Rightarrow> tab" where
  "sync_steps tr timer [] st = st"
| "sync_steps tr timer (e # es) st = sync_steps tr timer es (sync_step tr timer e st)"

text \<open>The steps before \<^verbatim>\<open>try\<close>: disable the button, start the timer, show the display.\<close>

definition forceSync_begin :: "(string \<Rightarrow> string) \<Rightarrow> tab \<Rightarrow> nat \<times> tab" where
  "forceSync_begin tr st =
     (let st1 = st\<lparr>buttonText := tr ''settings.forceSync.button.updating'' @ '' '' @ moon (CHR 0x91),
                   buttonCta := False,
                   indexVaultDisabled := True\<rparr>;
          (progress_indicator, st2) = setInterval st1;
          st3 = (case (syncProgressEl st2, syncProgressText st2) of
                   (Some el, Some txt) \<Rightarrow>
                     st2\<lparr>syncProgressEl := Some (el\<lparr>el_display := [], el_value := 0, el_max := 1\<rparr>),
                         syncProgressText := Some (txt\<lparr>txt_display := [],
                            txt_textContent := tr ''settings.forceSync.progress.preparing''\<rparr>)\<rparr>
                 | _ \<Rightarrow> st2)
      in (progress_indicator, st3))"

text \<open>The \<^verbatim>\<open>finally\<close> block.\<close>

definition forceSync_finally :: "nat \<Rightarrow> tab \<Rightarrow> tab" where
  "forceSync_finally progress_indicator st =
     (let st1 = (case syncProgressEl st of
                   Some el \<Rightarrow> st\<lparr>syncProgressEl := Some (el\<lparr>el_display := ''none''\<rparr>)\<rparr>
                 | None \<Rightarrow> st);
          st2 = (case syncProgressText st1 of
                   Some txt \<Rightarrow> st1\<lparr>syncProgressText := Some (txt\<lparr>txt_display := ''none''\<rparr>)\<rparr>
                 | None \<Rightarrow> st1);
          st3 = refreshStorageDisplay st2;
          st4 = clearInterval progress_indicator st3
      in st4\<lparr>buttonText := ''Update'', buttonCta := True, indexVaultDisabled := False\<rparr>)"

text \<open>
  The click handler of the force-sync button. The result is the error the handler
  throws, if any, and the state it leaves.
\<close>

definition forceSync_onClick ::
  "(string \<Rightarrow> string) \<Rightarrow> (KhojSetting \<Rightarrow> (TFile \<times> int) list \<Rightarrow> bool \<Rightarrow> bool \<Rightarrow> sync_run)
     \<Rightarrow> tab \<Rightarrow> js_error option \<times> tab" where
  "forceSync_onClick tr updateContentIndex st =
     (let (progress_indicator, st1) = forceSync_begin tr st;
          (events, outcome) = updateContentIndex (settings st1) (lastSync (settings st1)) True True;
          st2 = sync_steps tr progress_indicator events st1
      in case outcome of
           Inr newLastSync \<Rightarrow>
             (None, forceSync_finally progress_indicator
                      (st2\<lparr>settings := (settings st2)\<lparr>lastSync := newLastSync\<rparr>\<rparr>))
         | Inl e \<Rightarrow> (Some e, forceSync_finally progress_indicator st2))"

section \<open>Opening the tab\<close>

text \<open>
  \<^verbatim>\<open>display()\<close>, as far as the state above goes: it renders the chat model control,
  makes the force-sync button and the two hidden progress elements, and asks once for
  the storage figures. (When connected it also schedules one reconciliation a second
  later, which is a separate step here.) Timer ids of a window start at 1.
\<close>

definition display :: "(string \<Rightarrow> string) \<Rightarrow> KhojSetting \<Rightarrow> tab" where
  "display tr s =
     refreshStorageDisplay (renderChatModelDropdown tr
       \<lparr> settings = s,
         persisted = None,
         notices = [],
         chatModelControl = None,
         storageRefreshes = 0,
         buttonText = tr ''settings.forceSync.button'',
         buttonCta = True,
         indexVaultDisabled = False,
         activeIntervals = [],
         nextIntervalId = 1,
         syncProgressEl = Some \<lparr> el_display = ''none'', el_value = 0, el_max = 1 \<rparr>,
         syncProgressText = Some \<lparr> txt_display = ''none'', txt_textContent = [] \<rparr> \<rparr>)"

section \<open>The reconciliation rule as specified\<close>

text \<open>
  The server's remembered preference converted to string form, or absent if the server
  returned no preference; and the selection the rule asks for: that id when it is the id
  of a fetched model, else none.
\<close>

fun serverId :: "ServerUserConfig option \<Rightarrow> string option" where
  "serverId None = None"
| "serverId (Some c) =
     (case selected_chat_model_config c of
        Present n \<Rightarrow> Some (number_toString n)
      | Missing \<Rightarrow> None
      | IsNull \<Rightarrow> None)"

fun reconciled :: "string option \<Rightarrow> ModelOption list \<Rightarrow> string option" where
  "reconciled None models = None"
| "reconciled (Some i) models = (if i \<in> model_id ` set models then Some i else None)"

section \<open>Concrete collaborators and tabs\<close>

text \<open>
  A backend that answers every probe with the given flag, offers the models \<open>1\<close> and
  \<open>2\<close>, and remembers the given preference.
\<close>

definition sample_backend :: "bool \<Rightarrow> int optional \<Rightarrow> backend" where
  "sample_backend up pref =
     \<lparr> canConnectToBackend =
         (\<lambda>url key. \<lparr> res_connectedToBackend = up, res_userInfo = None, res_statusMessage = [] \<rparr>),
       fetchChatModels =
         (\<lambda>s. [\<lparr> model_id = ''1'', model_name = ''One'' \<rparr>, \<lparr> model_id = ''2'', model_name = ''Two'' \<rparr>]),
       fetchUserServerSettings = (\<lambda>s. Some \<lparr> selected_chat_model_config = pref \<rparr>) \<rparr>"

text \<open>The tab opened on the default settings, and on the default settings once connected.\<close>

definition default_tab :: tab where
  "default_tab = display id DEFAULT_SETTINGS"

definition connected_tab :: tab where
  "connected_tab = display id (DEFAULT_SETTINGS\<lparr>connectedToBackend := True\<rparr>)"

text \<open>The connected tab after one reconciliation against a server that remembers model 2.\<close>

definition models_tab :: tab where
  "models_tab = refreshModelsAndServerPreference id (sample_backend True (Present 2)) connected_tab"

text \<open>
  An index update that reports progress twice, with two timer ticks in between, and ends
  with the given outcome.
\<close>

definition sample_sync :: "js_error + (TFile \<times> int) list \<Rightarrow> KhojSetting \<Rightarrow> (TFile \<times> int) list \<Rightarrow> bool \<Rightarrow> bool \<Rightarrow> sync_run" where
  "sample_sync outcome s ls regenerate userTriggered = ([Progress 1 3, Tick, Tick, Progress 2 3], outcome)"

section \<open>Reconciliation of the chat model preference\<close>

lemma list_ex_model_id: "list_ex (\<lambda>m. model_id m = i) ms \<longleftrightarrow> i \<in> model_id ` set ms"
  by (auto simp: list_ex_iff)

lemma number_toString_7: "number_toString 7 = ''7''"
  by (simp add: number_toString_def nat_digits.simps digit_char_def)

lemma number_toString_2: "number_toString 2 = ''2''"
  by (simp add: number_toString_def nat_digits.simps digit_char_def)

lemma connected_tab_connected: "connectedToBackend (settings connected_tab)"
  by (simp add: connected_tab_def display_def renderChatModelDropdown_def
      refreshStorageDisplay_def DEFAULT_SETTINGS_def)

text \<open>
  Claim C1. When the tab is connected, \<^verbatim>\<open>refreshModelsAndServerPreference\<close> stores the
  fetched model list, and sets the selection to the server's preference in string form
  when that string is the id of a fetched model, and to null otherwise (no server
  configuration, no preference, a null preference, or an id that is not in the list);
  the outcome is saved.
\<close>

theorem reconcile_selection:
  assumes "connectedToBackend (settings st)"
  shows "availableChatModels (settings (refreshModelsAndServerPreference tr B st))
           = fetchChatModels B (settings st)
       \<and> selectedChatModelId (settings (refreshModelsAndServerPreference tr B st))
           = reconciled (serverId (fetchUserServerSettings B (settings st)))
               (fetchChatModels B (settings st))
       \<and> persisted (refreshModelsAndServerPreference tr B st)
           = Some (settings (refreshModelsAndServerPreference tr B st))"
  using assms
  by (simp add: refreshModelsAndServerPreference_def renderChatModelDropdown_def
      saveSettings_def Let_def list_ex_model_id
      split: option.splits optional.splits)

text \<open>
  The example of the specification: the server remembers 7 and the models are 1 and 2, so
  the selection becomes null; with 2 remembered it becomes \<open>2\<close>.
\<close>

theorem reconcile_selection_witness:
  "connectedToBackend (settings connected_tab)
   \<and> selectedChatModelId (settings
        (refreshModelsAndServerPreference id (sample_backend True (Present 7)) connected_tab)) = None
   \<and> selectedChatModelId (settings
        (refreshModelsAndServerPreference id (sample_backend True (Present 2)) connected_tab)) = Some ''2''
   \<and> map model_id (availableChatModels (settings
        (refreshModelsAndServerPreference id (sample_backend True (Present 7)) connected_tab)))
        = [''1'', ''2'']"
  using reconcile_selection [OF connected_tab_connected, of id "sample_backend True (Present 7)"]
        reconcile_selection [OF connected_tab_connected, of id "sample_backend True (Present 2)"]
  by (simp add: connected_tab_connected sample_backend_def number_toString_7 number_toString_2)

section \<open>A user's choice of chat model\<close>

lemma models_tab_control:
  "chatModelControl models_tab =
     Some (Dropdown [([], ''settings.chatModel.option.default''), (''1'', ''One''), (''2'', ''Two'')] ''2'')"
  by (simp add: models_tab_def refreshModelsAndServerPreference_def connected_tab_connected
      sample_backend_def number_toString_2 renderChatModelDropdown_def saveSettings_def Let_def)

lemma models_tab_selected: "selectedChatModelId (settings models_tab) = Some ''2''"
  by (simp add: models_tab_def refreshModelsAndServerPreference_def connected_tab_connected
      sample_backend_def number_toString_2 renderChatModelDropdown_def saveSettings_def Let_def)

lemma models_tab_models: "availableChatModels (settings models_tab) \<noteq> []"
  by (simp add: models_tab_def refreshModelsAndServerPreference_def connected_tab_connected
      sample_backend_def number_toString_2 renderChatModelDropdown_def saveSettings_def Let_def)

text \<open>
  What the handler does with any \<open>push\<close>: after a refused push the dropdown shows the
  selection of the settings as the push left them; after an accepted one the settings
  the push left are saved.
\<close>

lemma chatModel_onChange_any_push:
  assumes "chatModelControl st = Some (Dropdown opts cur)"
  shows "(push v (settings st) = (False, s') \<longrightarrow>
            displayed_selection (user_selects push v st) = Some (or_empty (selectedChatModelId s'))
          \<and> persisted (user_selects push v st) = persisted st)
       \<and> (push v (settings st) = (True, s') \<longrightarrow>
            displayed_selection (user_selects push v st) = Some v
          \<and> settings (user_selects push v st) = s'
          \<and> persisted (user_selects push v st) = Some s')"
  using assms
  by (auto simp: user_selects_def chatModel_onChange_def saveSettings_def)

text \<open>
  Claim C2. The user picks \<open>v\<close> in the dropdown and the handler pushes \<open>v\<close> to the
  server through \<^verbatim>\<open>updateServerChatModel\<close> (modelled from the specification, the
  function not being among the sources). When the push fails, the dropdown goes back to
  the selection the settings hold, the last known good one, and neither the settings nor
  what is saved change. When the push succeeds, the settings hold \<open>v\<close>, the dropdown
  shows \<open>v\<close>, and the settings are saved. The handler itself never assigns the selection:
  on success it saves the settings as the push left them, on failure it re-reads them.
\<close>

theorem push_failure_reverts:
  assumes "chatModelControl st = Some (Dropdown opts cur)"
  shows "(\<not> accepted \<longrightarrow>
            displayed_selection (user_selects (updateServerChatModel accepted) v st)
              = Some (or_empty (selectedChatModelId (settings st)))
          \<and> settings (user_selects (updateServerChatModel accepted) v st) = settings st
          \<and> persisted (user_selects (updateServerChatModel accepted) v st) = persisted st)
       \<and> (accepted \<longrightarrow>
            selectedChatModelId (settings (user_selects (updateServerChatModel accepted) v st)) = Some v
          \<and> displayed_selection (user_selects (updateServerChatModel accepted) v st) = Some v
          \<and> persisted (user_selects (updateServerChatModel accepted) v st)
              = Some (settings (user_selects (updateServerChatModel accepted) v st)))"
  using assms
  by (simp add: user_selects_def chatModel_onChange_def updateServerChatModel_def saveSettings_def)

text \<open>
  With model 2 selected, the user picks model 1: a refused push leaves 2 shown and
  selected, an accepted one leaves 1 shown and selected.
\<close>

theorem push_failure_reverts_witness:
  "chatModelControl models_tab =
     Some (Dropdown [([], ''settings.chatModel.option.default''), (''1'', ''One''), (''2'', ''Two'')] ''2'')
   \<and> displayed_selection (user_selects (updateServerChatModel False) ''1'' models_tab) = Some ''2''
   \<and> selectedChatModelId (settings (user_selects (updateServerChatModel False) ''1'' models_tab)) = Some ''2''
   \<and> displayed_selection (user_selects (updateServerChatModel True) ''1'' models_tab) = Some ''1''
   \<and> selectedChatModelId (settings (user_selects (updateServerChatModel True) ''1'' models_tab)) = Some ''1''"
  using push_failure_reverts [OF models_tab_control, of False "''1''"]
        push_failure_reverts [OF models_tab_control, of True "''1''"]
  by (simp add: models_tab_control models_tab_selected)

section \<open>Losing the connection\<close>

lemma default_tab_disconnected: "\<not> connectedToBackend (settings default_tab)"
  by (simp add: default_tab_def display_def renderChatModelDropdown_def
      refreshStorageDisplay_def DEFAULT_SETTINGS_def)

text \<open>
  Claim C3. Whenever the probe made after an edit of the API key or of the URL fails, and
  whenever the reconciliation runs while the tab is not connected, the list of models
  becomes empty and the selection becomes null, whatever they were before; that state
  is what is saved.
\<close>

theorem disconnect_resets:
  "(\<not> res_connectedToBackend (canConnectToBackend B (khojUrl (settings st)) (trim v)) \<longrightarrow>
       availableChatModels (settings (apiKey_onChange tr B v st)) = []
     \<and> selectedChatModelId (settings (apiKey_onChange tr B v st)) = None
     \<and> persisted (apiKey_onChange tr B v st) = Some (settings (apiKey_onChange tr B v st)))
 \<and> (\<not> res_connectedToBackend
         (canConnectToBackend B (strip_trailing_slash (trim v)) (khojApiKey (settings st))) \<longrightarrow>
       availableChatModels (settings (khojUrl_onChange tr B v st)) = []
     \<and> selectedChatModelId (settings (khojUrl_onChange tr B v st)) = None
     \<and> persisted (khojUrl_onChange tr B v st) = Some (settings (khojUrl_onChange tr B v st)))
 \<and> (\<not> connectedToBackend (settings st) \<longrightarrow>
       availableChatModels (settings (refreshModelsAndServerPreference tr B st)) = []
     \<and> selectedChatModelId (settings (refreshModelsAndServerPreference tr B st)) = None
     \<and> persisted (refreshModelsAndServerPreference tr B st)
          = Some (settings (refreshModelsAndServerPreference tr B st)))"
  by (simp add: apiKey_onChange_def khojUrl_onChange_def refreshModelsAndServerPreference_def
      renderChatModelDropdown_def saveSettings_def Let_def)

text \<open>
  A tab that holds two models with model 2 selected loses both when the probe fails
  after either edit; a tab that is not connected has none after a reconciliation.
\<close>

theorem disconnect_resets_witness:
  "availableChatModels (settings models_tab) \<noteq> []
   \<and> selectedChatModelId (settings models_tab) = Some ''2''
   \<and> \<not> res_connectedToBackend (canConnectToBackend (sample_backend False (Present 2))
          (khojUrl (settings models_tab)) (trim '' key ''))
   \<and> availableChatModels (settings
        (apiKey_onChange id (sample_backend False (Present 2)) '' key '' models_tab)) = []
   \<and> selectedChatModelId (settings
        (apiKey_onChange id (sample_backend False (Present 2)) '' key '' models_tab)) = None
   \<and> availableChatModels (settings
        (khojUrl_onChange id (sample_backend False (Present 2)) ''http://x/'' models_tab)) = []
   \<and> selectedChatModelId (settings
        (khojUrl_onChange id (sample_backend False (Present 2)) ''http://x/'' models_tab)) = None
   \<and> \<not> connectedToBackend (settings default_tab)
   \<and> availableChatModels (settings
        (refreshModelsAndServerPreference id (sample_backend True (Present 2)) default_tab)) = []"
  using disconnect_resets [of "sample_backend False (Present 2)" models_tab "'' key ''" id]
        disconnect_resets [of "sample_backend False (Present 2)" models_tab "''http://x/''" id]
        disconnect_resets [of "sample_backend True (Present 2)" default_tab "[]" id]
  by (simp add: models_tab_selected models_tab_models default_tab_disconnected sample_backend_def)

section \<open>The include and exclude lists\<close>

lemma syncFolders_after [simp]:
  "syncFolders (settings (includeFolder_onChoose f st)) =
     (if f \<in> set (syncFolders (settings st)) then syncFolders (settings st)
      else syncFolders (settings st) @ [f])"
  "syncFolders (settings (includeFolder_onRemove f st)) = filter (\<lambda>g. g \<noteq> f) (syncFolders (settings st))"
  "syncFolders (settings (excludeFolder_onChoose tr f st)) = syncFolders (settings st)"
  "syncFolders (settings (excludeFolder_onRemove f st)) = syncFolders (settings st)"
  by (simp_all add: includeFolder_onChoose_def includeFolder_onRemove_def
      excludeFolder_onChoose_def excludeFolder_onRemove_def
      saveSettings_def refreshStorageDisplay_def Notice_def)

lemma excludeFolders_after [simp]:
  "excludeFolders (settings (includeFolder_onChoose f st)) = excludeFolders (settings st)"
  "excludeFolders (settings (includeFolder_onRemove f st)) = excludeFolders (settings st)"
  "excludeFolders (settings (excludeFolder_onChoose tr f st)) =
     (if f = [] \<or> f \<in> set (excludeFolders (settings st)) then excludeFolders (settings st)
      else excludeFolders (settings st) @ [f])"
  "excludeFolders (settings (excludeFolder_onRemove f st)) = filter (\<lambda>g. g \<noteq> f) (excludeFolders (settings st))"
  by (simp_all add: includeFolder_onChoose_def includeFolder_onRemove_def
      excludeFolder_onChoose_def excludeFolder_onRemove_def
      saveSettings_def refreshStorageDisplay_def Notice_def)

lemma apply_folder_ops_append:
  "apply_folder_ops tr (xs @ ys) st = apply_folder_ops tr ys (apply_folder_ops tr xs st)"
  by (induction xs arbitrary: st) auto

lemma root_not_excluded_step:
  "[] \<notin> set (excludeFolders (settings st)) \<Longrightarrow>
   [] \<notin> set (excludeFolders (settings (apply_folder_op tr x st)))"
  by (cases x) auto

lemma root_not_excluded:
  "[] \<notin> set (excludeFolders (settings st)) \<Longrightarrow>
   [] \<notin> set (excludeFolders (settings (apply_folder_ops tr xs st)))"
proof (induction xs arbitrary: st)
  case Nil
  then show ?case by simp
next
  case (Cons x xs)
  from Cons.prems have "[] \<notin> set (excludeFolders (settings (apply_folder_op tr x st)))"
    by (rule root_not_excluded_step)
  then show ?case using Cons.IH by simp
qed

text \<open>Both lists stay free of duplicates: an add looks the folder up first.\<close>

lemma folders_distinct_step:
  "distinct (syncFolders (settings st)) \<and> distinct (excludeFolders (settings st)) \<Longrightarrow>
   distinct (syncFolders (settings (apply_folder_op tr x st)))
     \<and> distinct (excludeFolders (settings (apply_folder_op tr x st)))"
  by (cases x) auto

lemma folders_distinct:
  "distinct (syncFolders (settings st)) \<and> distinct (excludeFolders (settings st)) \<Longrightarrow>
   distinct (syncFolders (settings (apply_folder_ops tr xs st)))
     \<and> distinct (excludeFolders (settings (apply_folder_ops tr xs st)))"
proof (induction xs arbitrary: st)
  case Nil
  then show ?case by simp
next
  case (Cons x xs)
  from folders_distinct_step [OF Cons.prems] Cons.IH show ?case by simp
qed

lemma default_tab_folders:
  "syncFolders (settings default_tab) = []" "excludeFolders (settings default_tab) = []"
  by (simp_all add: default_tab_def display_def DEFAULT_SETTINGS_def renderChatModelDropdown_def
      refreshStorageDisplay_def)

lemma default_tab_notices: "notices default_tab = []"
  by (simp add: default_tab_def display_def DEFAULT_SETTINGS_def renderChatModelDropdown_def
      refreshStorageDisplay_def)

lemma notices_root_exclusion:
  "notices (excludeFolder_onChoose tr [] st)
     = notices st @ [tr ''settings.excludeFolders.cannotExcludeRoot'']"
  by (simp add: excludeFolder_onChoose_def Notice_def)

text \<open>
  Claim C4, as stated, fails: from the default settings, adding the folder \<open>notes\<close> to
  the include list and then to the exclude list leaves it in both. Neither add looks at
  the other list.
\<close>

theorem folders_not_disjoint_counterexample:
  "set (syncFolders (settings
       (apply_folder_ops id [AddInclude ''notes'', AddExclude ''notes''] default_tab)))
   \<inter> set (excludeFolders (settings
       (apply_folder_ops id [AddInclude ''notes'', AddExclude ''notes''] default_tab)))
   = {''notes''}"
  by (simp add: default_tab_folders)

text \<open>
  Claim C4, amended. After every sequence of add and remove operations that starts with
  the vault root not in the exclude list (as in the default settings), the root is not a
  member of both lists, because it is never in the exclude list; every other folder path
  can be a member of both: adding it to one list and then to the other, after any
  sequence of operations, leaves it in both.
\<close>

theorem root_never_in_both_lists:
  assumes "[] \<notin> set (excludeFolders (settings st))"
  shows "[] \<notin> set (syncFolders (settings (apply_folder_ops tr ops st)))
              \<inter> set (excludeFolders (settings (apply_folder_ops tr ops st)))
       \<and> (f \<noteq> [] \<longrightarrow>
            f \<in> set (syncFolders (settings
                  (apply_folder_ops tr (ops @ [AddInclude f, AddExclude f]) st)))
              \<inter> set (excludeFolders (settings
                  (apply_folder_ops tr (ops @ [AddInclude f, AddExclude f]) st))))"
  using root_not_excluded [OF assms, of tr ops]
  by (auto simp: apply_folder_ops_append)

theorem root_never_in_both_lists_witness:
  "[] \<notin> set (excludeFolders (settings default_tab))
   \<and> [] \<notin> set (excludeFolders (settings
        (apply_folder_ops id [AddInclude [], AddExclude [], AddExclude ''a'', RemoveExclude ''a'']
           default_tab)))
   \<and> syncFolders (settings
        (apply_folder_ops id [AddInclude [], AddExclude [], AddExclude ''a'', RemoveExclude ''a'']
           default_tab)) = [[]]
   \<and> ''b'' \<noteq> []
   \<and> ''b'' \<in> set (excludeFolders (settings
        (apply_folder_ops id ([AddInclude [], AddExclude []] @ [AddInclude ''b'', AddExclude ''b''])
           default_tab)))"
  using root_never_in_both_lists [of default_tab id
          "[AddInclude [], AddExclude [], AddExclude ''a'', RemoveExclude ''a'']" "''b''"]
        root_never_in_both_lists [of default_tab id "[AddInclude [], AddExclude []]" "''b''"]
  by (simp add: default_tab_folders)

text \<open>
  Claim C5. Choosing the vault root (the empty path) for the exclude list only shows the
  notice that the root cannot be excluded: the tab is otherwise unchanged, and so is the
  exclude list. Every other path is in the exclude list after it was chosen for it, and
  every path, the root too, is in the include list after it was chosen for it; no
  handler checks that the folder exists.
\<close>

theorem root_exclusion_rejected:
  "excludeFolder_onChoose tr [] st
     = st\<lparr>notices := notices st @ [tr ''settings.excludeFolders.cannotExcludeRoot'']\<rparr>
   \<and> excludeFolders (settings (excludeFolder_onChoose tr [] st)) = excludeFolders (settings st)
   \<and> (folder \<noteq> [] \<longrightarrow> folder \<in> set (excludeFolders (settings (excludeFolder_onChoose tr folder st))))
   \<and> folder \<in> set (syncFolders (settings (includeFolder_onChoose folder st)))"
  by (simp add: excludeFolder_onChoose_def includeFolder_onChoose_def Notice_def
      saveSettings_def refreshStorageDisplay_def)

theorem root_exclusion_rejected_witness:
  "notices (excludeFolder_onChoose id [] default_tab) = [''settings.excludeFolders.cannotExcludeRoot'']
   \<and> excludeFolders (settings (excludeFolder_onChoose id [] default_tab)) = []
   \<and> ''no/such/folder'' \<noteq> []
   \<and> excludeFolders (settings (excludeFolder_onChoose id ''no/such/folder'' default_tab))
       = [''no/such/folder'']
   \<and> syncFolders (settings (includeFolder_onChoose [] default_tab)) = [[]]"
  using root_exclusion_rejected [of id default_tab "''no/such/folder''"]
        root_exclusion_rejected [of id default_tab "[]"]
  by (simp add: default_tab_folders default_tab_notices notices_root_exclusion)

section \<open>The progress display of a forced sync\<close>

lemma default_tab_progress:
  "syncProgressEl default_tab = Some \<lparr> el_display = ''none'', el_value = 0, el_max = 1 \<rparr>"
  "syncProgressText default_tab = Some \<lparr> txt_display = ''none'', txt_textContent = [] \<rparr>"
  by (simp_all add: default_tab_def display_def DEFAULT_SETTINGS_def renderChatModelDropdown_def
      refreshStorageDisplay_def)

lemma default_tab_timer: "nextIntervalId default_tab = 1"
  by (simp add: default_tab_def display_def DEFAULT_SETTINGS_def renderChatModelDropdown_def
      refreshStorageDisplay_def)

text \<open>
  Claim C6. For a progress report with \<open>processed \<ge> 0\<close> and \<open>total \<ge> 0\<close>, when the two
  progress elements are in the document, the maximum shown is \<open>max total 1\<close>, so never
  zero, and the value shown is \<open>min processed\<close> of that maximum. (When an element is not
  in the document the callback returns at once and nothing is shown.)
\<close>

theorem progress_display:
  assumes "0 \<le> processed" and "0 \<le> total'"
    and "syncProgressEl st = Some el" and "syncProgressText st = Some txt"
  shows "\<exists>el'. syncProgressEl (onProgress tr processed total' st) = Some el'
           \<and> el_max el' = max total' 1
           \<and> el_value el' = min processed (el_max el')
           \<and> 0 < el_max el'"
  using assms by (simp add: onProgress_def Let_def)

text \<open>
  The two examples of the specification: 50 of 10 shows the value 10, and 0 of 0 shows the
  maximum 1.
\<close>

theorem progress_display_witness:
  "(0::int) \<le> 50 \<and> (0::int) \<le> 10
   \<and> syncProgressEl default_tab \<noteq> None \<and> syncProgressText default_tab \<noteq> None
   \<and> map_option el_value (syncProgressEl (onProgress id 50 10 default_tab)) = Some 10
   \<and> map_option el_max (syncProgressEl (onProgress id 50 10 default_tab)) = Some 10
   \<and> map_option el_max (syncProgressEl (onProgress id 0 0 default_tab)) = Some 1
   \<and> map_option el_value (syncProgressEl (onProgress id 0 0 default_tab)) = Some 0"
  using progress_display [OF _ _ default_tab_progress, of 50 10 id]
        progress_display [OF _ _ default_tab_progress, of 0 0 id]
  by (auto simp: default_tab_progress)

section \<open>Teardown of a forced sync\<close>

lemma forceSync_begin_settings: "settings (snd (forceSync_begin tr st)) = settings st"
  by (simp add: forceSync_begin_def setInterval_def Let_def split: option.splits prod.splits)

lemma forceSync_begin_timer: "fst (forceSync_begin tr st) = nextIntervalId st"
  by (simp add: forceSync_begin_def setInterval_def Let_def split: option.splits prod.splits)

lemma forceSync_finally_torn_down:
  "(\<forall>el. syncProgressEl (forceSync_finally i st) = Some el \<longrightarrow> el_display el = ''none'')
   \<and> (\<forall>txt. syncProgressText (forceSync_finally i st) = Some txt \<longrightarrow> txt_display txt = ''none'')
   \<and> i \<notin> set (activeIntervals (forceSync_finally i st))
   \<and> \<not> indexVaultDisabled (forceSync_finally i st)
   \<and> buttonCta (forceSync_finally i st)
   \<and> buttonText (forceSync_finally i st) = ''Update''"
  by (simp add: forceSync_finally_def clearInterval_def refreshStorageDisplay_def Let_def
      split: option.splits)

text \<open>
  Claim C7. Whether the index update returns or throws, the state the click handler
  leaves has the progress elements hidden, the timer it started stopped, and the
  force-sync setting enabled again; and the handler throws exactly the error of the
  index update, if there is one, so a failure reaches the caller with the teardown done.
\<close>

theorem forceSync_teardown:
  assumes "updateContentIndex (settings st) (lastSync (settings st)) True True = (events, outcome)"
  shows "fst (forceSync_onClick tr updateContentIndex st)
           = (case outcome of Inl e \<Rightarrow> Some e | Inr newLastSync \<Rightarrow> None)
       \<and> (\<forall>el. syncProgressEl (snd (forceSync_onClick tr updateContentIndex st)) = Some el
              \<longrightarrow> el_display el = ''none'')
       \<and> (\<forall>txt. syncProgressText (snd (forceSync_onClick tr updateContentIndex st)) = Some txt
              \<longrightarrow> txt_display txt = ''none'')
       \<and> nextIntervalId st \<notin> set (activeIntervals (snd (forceSync_onClick tr updateContentIndex st)))
       \<and> \<not> indexVaultDisabled (snd (forceSync_onClick tr updateContentIndex st))"
proof -
  obtain i st1 where b: "forceSync_begin tr st = (i, st1)"
    by (cases "forceSync_begin tr st")
  have i: "i = nextIntervalId st" and s1: "settings st1 = settings st"
    using forceSync_begin_timer [of tr st] forceSync_begin_settings [of tr st] b by simp_all
  show ?thesis
  proof (cases outcome)
    case (Inl e)
    then have "forceSync_onClick tr updateContentIndex st
                 = (Some e, forceSync_finally i (sync_steps tr i events st1))"
      using assms b s1 by (simp add: forceSync_onClick_def)
    then show ?thesis
      using forceSync_finally_torn_down [of i "sync_steps tr i events st1"] Inl i by simp
  next
    case (Inr ls)
    then have "forceSync_onClick tr updateContentIndex st
                 = (None, forceSync_finally i
                      ((sync_steps tr i events st1)
                         \<lparr>settings := (settings (sync_steps tr i events st1))\<lparr>lastSync := ls\<rparr>\<rparr>))"
      using assms b s1 by (simp add: forceSync_onClick_def Let_def)
    then show ?thesis
      using forceSync_finally_torn_down [of i "(sync_steps tr i events st1)
                         \<lparr>settings := (settings (sync_steps tr i events st1))\<lparr>lastSync := ls\<rparr>\<rparr>"] Inr i
      by simp
  qed
qed

text \<open>The handler neither adds nor removes a progress element.\<close>

lemma sample_sync_run:
  "sample_sync outcome (settings default_tab) (lastSync (settings default_tab)) True True
     = ([Progress 1 3, Tick, Tick, Progress 2 3], outcome)"
  by (simp add: sample_sync_def)

lemma sync_step_keeps_elements:
  "(syncProgressEl (sync_step tr i e st) = None) = (syncProgressEl st = None)"
  "(syncProgressText (sync_step tr i e st) = None) = (syncProgressText st = None)"
  by (cases e; simp add: onProgress_def progress_indicator_tick_def Let_def split: option.splits)+

lemma sync_steps_keeps_elements:
  "(syncProgressEl (sync_steps tr i es st) = None) = (syncProgressEl st = None)
   \<and> (syncProgressText (sync_steps tr i es st) = None) = (syncProgressText st = None)"
  by (induction es arbitrary: st) (simp_all add: sync_step_keeps_elements)

lemma forceSync_begin_keeps_elements:
  "(syncProgressEl (snd (forceSync_begin tr st)) = None) = (syncProgressEl st = None)
   \<and> (syncProgressText (snd (forceSync_begin tr st)) = None) = (syncProgressText st = None)"
  by (simp add: forceSync_begin_def setInterval_def Let_def split: option.splits prod.splits)

lemma forceSync_finally_keeps_elements:
  "(syncProgressEl (forceSync_finally i st) = None) = (syncProgressEl st = None)
   \<and> (syncProgressText (forceSync_finally i st) = None) = (syncProgressText st = None)"
  by (simp add: forceSync_finally_def clearInterval_def refreshStorageDisplay_def Let_def
      split: option.splits)

lemma forceSync_keeps_elements:
  "(syncProgressEl (snd (forceSync_onClick tr U st)) = None) = (syncProgressEl st = None)
   \<and> (syncProgressText (snd (forceSync_onClick tr U st)) = None) = (syncProgressText st = None)"
proof -
  obtain i st1 where b: "forceSync_begin tr st = (i, st1)"
    by (cases "forceSync_begin tr st")
  obtain es out where u: "U (settings st1) (lastSync (settings st1)) True True = (es, out)"
    by (cases "U (settings st1) (lastSync (settings st1)) True True")
  from forceSync_begin_keeps_elements [of tr st] b
  have 1: "(syncProgressEl st1 = None) = (syncProgressEl st = None)"
    "(syncProgressText st1 = None) = (syncProgressText st = None)" by simp_all
  show ?thesis
    using 1 sync_steps_keeps_elements [of tr i es st1]
    by (cases out) (simp_all add: forceSync_onClick_def b u forceSync_finally_keeps_elements Let_def)
qed

text \<open>
  A run that throws a network error after two progress reports and two ticks: the handler
  throws that error, and the elements are hidden, timer 1 is stopped and the setting is
  enabled. A run that returns leaves the same, and nothing is thrown.
\<close>

theorem forceSync_teardown_witness:
  "sample_sync (Inl (Error ''network'')) (settings default_tab) (lastSync (settings default_tab)) True True
     = ([Progress 1 3, Tick, Tick, Progress 2 3], Inl (Error ''network''))
   \<and> fst (forceSync_onClick id (sample_sync (Inl (Error ''network''))) default_tab) = Some (Error ''network'')
   \<and> map_option el_display (syncProgressEl
        (snd (forceSync_onClick id (sample_sync (Inl (Error ''network''))) default_tab))) = Some ''none''
   \<and> map_option txt_display (syncProgressText
        (snd (forceSync_onClick id (sample_sync (Inl (Error ''network''))) default_tab))) = Some ''none''
   \<and> 1 \<notin> set (activeIntervals
        (snd (forceSync_onClick id (sample_sync (Inl (Error ''network''))) default_tab)))
   \<and> \<not> indexVaultDisabled
        (snd (forceSync_onClick id (sample_sync (Inl (Error ''network''))) default_tab))
   \<and> fst (forceSync_onClick id (sample_sync (Inr [])) default_tab) = None
   \<and> \<not> indexVaultDisabled (snd (forceSync_onClick id (sample_sync (Inr [])) default_tab))"
  using forceSync_teardown [where st = default_tab and tr = id
          and updateContentIndex = "sample_sync (Inl (Error ''network''))", OF sample_sync_run]
        forceSync_teardown [where st = default_tab and tr = id
          and updateContentIndex = "sample_sync (Inr [])", OF sample_sync_run]
        forceSync_keeps_elements [of id "sample_sync (Inl (Error ''network''))" default_tab]
  by (auto simp: sample_sync_run default_tab_timer default_tab_progress)

section \<open>The translation walk\<close>

lemma has_walk_fun: "has_walk ks BuiltinFunction \<noteq> Inr True"
  by (cases ks) auto

lemma has_walk_undef: "has_walk ks Undefined \<noteq> Inr True"
  by (cases ks) auto

lemma has_walk_null: "has_walk ks Null \<noteq> Inr True"
  by (cases ks) auto

lemma has_walk_str: "has_walk ks (JString s) = Inr (ks = [])"
  by (cases ks) auto

lemma js_get_proto_cases:
  "js_get ObjectPrototype k = Null \<or> js_get ObjectPrototype k = BuiltinFunction
     \<or> js_get ObjectPrototype k = Undefined"
  by simp

lemma has_walk_proto: "has_walk ks ObjectPrototype \<noteq> Inr True"
proof (cases ks)
  case Nil
  then show ?thesis by simp
next
  case (Cons k ks')
  from js_get_proto_cases [of k] show ?thesis
    unfolding Cons
    by (auto simp del: js_get.simps simp: has_walk_fun has_walk_undef has_walk_null
        split: bool.splits)
qed

lemma js_get_dict_inherited:
  "map_of d k = None \<Longrightarrow>
     js_get (JDict d) k = ObjectPrototype \<or> js_get (JDict d) k = BuiltinFunction
       \<or> js_get (JDict d) k = Undefined"
  by simp

lemma has_walk_leaf:
  "has_walk ks (JDict d) = Inr True \<longleftrightarrow> (\<exists>s. path_leaf d ks = Some s)"
proof (induction d ks rule: path_leaf.induct)
  case (1 d)
  then show ?case by simp
next
  case (2 d k ks)
  show ?case
  proof (cases "map_of d k")
    case None
    from js_get_dict_inherited [OF None] show ?thesis
      using None
      by (auto simp del: js_get.simps simp: has_walk_fun has_walk_undef has_walk_proto
          split: bool.splits)
  next
    case (Some n)
    then show ?thesis
      using 2 by (cases n) (auto simp: has_walk_str)
  qed
qed

lemma t_walk_leaf:
  "path_leaf d ks = Some s \<Longrightarrow> t_walk key ks (JDict d) = Inr s"
proof (induction d ks rule: path_leaf.induct)
  case (1 d)
  then show ?case by simp
next
  case (2 d k ks)
  then show ?case
    by (auto split: option.splits TranslationNode.splits if_splits)
qed


lemma t_walk_fun: "t_walk key ks BuiltinFunction = Inr key"
  by (cases ks) auto

lemma t_walk_undef: "t_walk key ks Undefined = Inr key"
  by (cases ks) auto

lemma t_walk_null: "t_walk key ks Null = (if ks = [] then Inr key else Inl TypeError)"
  by (cases ks) auto

lemma t_walk_str: "t_walk key ks (JString s) = Inr (if ks = [] then s else key)"
  by (cases ks) auto

lemma t_walk_proto: "t_walk key ks ObjectPrototype = Inr r \<Longrightarrow> r = key"
proof (cases ks)
  case Nil
  assume "t_walk key ks ObjectPrototype = Inr r"
  then show ?thesis using Nil by simp
next
  case (Cons k ks')
  assume "t_walk key ks ObjectPrototype = Inr r"
  with js_get_proto_cases [of k] show ?thesis
    unfolding Cons
    by (auto simp del: js_get.simps simp: t_walk_fun t_walk_undef t_walk_null
        split: bool.splits if_splits)
qed

lemma t_walk_key_or_leaf:
  "t_walk key ks (JDict d) = Inr r \<Longrightarrow> r = key \<or> path_leaf d ks = Some r"
proof (induction d ks rule: path_leaf.induct)
  case (1 d)
  then show ?case by simp
next
  case (2 d k ks)
  show ?case
  proof (cases "map_of d k")
    case None
    from js_get_dict_inherited [OF None] "2.prems" None show ?thesis
      by (auto simp del: js_get.simps simp: t_walk_fun t_walk_undef
          split: bool.splits dest: t_walk_proto)
  next
    case (Some n)
    then show ?thesis
      using 2 by (cases n) (auto simp: t_walk_str split: if_splits)
  qed
qed

lemma t_walk_total_without_proto:
  "''__proto__'' \<notin> set ks \<Longrightarrow> v \<noteq> Null \<Longrightarrow> \<exists>r. t_walk key ks v = Inr r"
proof (induction ks arbitrary: v)
  case Nil
  then show ?case by (cases v) auto
next
  case (Cons k ks)
  from Cons.prems have k: "k \<noteq> ''__proto__''" and ks: "''__proto__'' \<notin> set ks"
    by auto
  show ?case
  proof (cases v)
    case (JDict d)
    have "js_get (JDict d) k \<noteq> Null"
      by (cases "map_of d k"; cases "the (map_of d k)") (auto simp: k)
    from Cons.IH [OF ks this] JDict show ?thesis
      by (auto simp del: js_get.simps split: bool.splits)
  next
    case ObjectPrototype
    have "js_get ObjectPrototype k \<noteq> Null"
      by (simp add: k)
    from Cons.IH [OF ks this] ObjectPrototype show ?thesis
      by (auto simp del: js_get.simps split: bool.splits)
  next
    case Null
    with Cons.prems show ?thesis by simp
  qed auto
qed

lemma t_total_without_proto:
  assumes "''__proto__'' \<notin> set (split_dot key)"
  shows "\<exists>r. t zhCN cur key lang = Inr r"
  using t_walk_total_without_proto [OF assms, of "JDict zhCN" key]
  by (cases "case lang of Some l \<Rightarrow> l | None \<Rightarrow> cur") (auto simp: t_def)

text \<open>
  Where the key has no segment \<^verbatim>\<open>__proto__\<close>, the walk of \<^verbatim>\<open>t\<close> never meets
  \<^verbatim>\<open>null\<close>: \<^verbatim>\<open>t\<close> returns, and what it returns is the key or the string at the end
  of the path (\<open>t_walk_key_or_leaf\<close>).
\<close>

lemma t_key_or_leaf:
  assumes "t zhCN cur key lang = Inr r"
  shows "r = key \<or> path_leaf zhCN (split_dot key) = Some r"
  using assms t_walk_key_or_leaf [of key "split_dot key" zhCN r]
  by (cases "case lang of Some l \<Rightarrow> l | None \<Rightarrow> cur") (auto simp: t_def)

lemma t_throws_without_own_proto:
  assumes "map_of zhCN ''__proto__'' = None"
  shows "t zhCN cur ''__proto__.__proto__.x'' (Some ZhCN) = Inl TypeError"
  using assms by (simp add: t_def object_prototype_keys_def)

text \<open>
  Claim C8 does not hold of the code. The key \<^verbatim>\<open>__proto__.__proto__.x\<close> names no entry
  of the dictionary, so the walk misses and the claim has \<^verbatim>\<open>t\<close> return the key. But
  \<^verbatim>\<open>'__proto__' in value\<close> is true of every ordinary object: the first step takes
  \<^verbatim>\<open>value\<close> to \<^verbatim>\<open>Object.prototype\<close>, the second to its prototype, \<^verbatim>\<open>null\<close>; and as
  \<^verbatim>\<open>typeof null\<close> is \<^verbatim>\<open>'object'\<close>, the third evaluates \<^verbatim>\<open>'x' in null\<close>, which throws
  a \<^verbatim>\<open>TypeError\<close>.
\<close>

theorem t_throws_on_null_prototype:
  "t sample_zhCN cur ''__proto__.__proto__.x'' (Some ZhCN) = Inl TypeError"
  by (simp add: t_def sample_zhCN_def object_prototype_keys_def)

text \<open>The two loops take the same steps: one throws exactly when the other does.\<close>

lemma walks_throw_alike: "has_walk ks v = Inl e \<longleftrightarrow> t_walk key ks v = Inl e"
proof (induction ks arbitrary: v)
  case Nil
  then show ?case by (cases v) auto
next
  case (Cons k ks)
  then show ?case
    by (cases "js_in k v") (auto simp del: js_get.simps js_in.simps split: bool.splits)
qed

text \<open>
  Claim C9. \<^verbatim>\<open>hasTranslation\<close> answers true exactly when the path of the key, in the
  dictionary of the language in force, ends at a string, and then \<^verbatim>\<open>t\<close> returns that
  string. Both functions take the language and the dictionary as arguments and return
  a value only: nothing is written.
\<close>

theorem hasTranslation_iff_leaf:
  "hasTranslation zhCN cur key lang = Inr True \<longleftrightarrow>
     (\<exists>d s. translations_of zhCN (case lang of Some l \<Rightarrow> l | None \<Rightarrow> cur) = Some d
          \<and> path_leaf d (split_dot key) = Some s
          \<and> t zhCN cur key lang = Inr s)"
proof (cases "case lang of Some l \<Rightarrow> l | None \<Rightarrow> cur")
  case En
  then show ?thesis
    using has_walk_leaf [of "split_dot key" "[]"]
    by (cases "split_dot key") (auto simp: hasTranslation_def)
next
  case ZhCN
  then show ?thesis
    using has_walk_leaf [of "split_dot key" zhCN]
    by (auto simp: hasTranslation_def t_def dest: t_walk_leaf)
next
  case Zh
  then show ?thesis
    using has_walk_leaf [of "split_dot key" zhCN]
    by (auto simp: hasTranslation_def t_def dest: t_walk_leaf)
qed

text \<open>
  In the sample dictionary the key \<^verbatim>\<open>settings.apiKey.name\<close> ends at a string, which
  \<^verbatim>\<open>t\<close> returns; \<^verbatim>\<open>settings.apiKey\<close> ends at a dictionary, and \<^verbatim>\<open>t\<close> returns the key.
\<close>

theorem hasTranslation_iff_leaf_witness:
  "hasTranslation sample_zhCN En ''settings.apiKey.name'' (Some Zh) = Inr True
   \<and> path_leaf sample_zhCN (split_dot ''settings.apiKey.name'') = Some ''Miyao''
   \<and> t sample_zhCN En ''settings.apiKey.name'' (Some Zh) = Inr ''Miyao''
   \<and> hasTranslation sample_zhCN En ''settings.apiKey'' (Some Zh) = Inr False
   \<and> t sample_zhCN En ''settings.apiKey'' (Some Zh) = Inr ''settings.apiKey''"
  using hasTranslation_iff_leaf [of sample_zhCN En "''settings.apiKey.name''" "Some Zh"]
  by (simp add: sample_zhCN_def hasTranslation_def t_def object_prototype_keys_def)

text \<open>
  In English \<^verbatim>\<open>t\<close> returns the key without a walk, and \<^verbatim>\<open>hasTranslation\<close>, which
  walks the empty dictionary, never answers true.
\<close>

lemma t_en: "t zhCN cur key (Some En) = Inr key"
  by (simp add: t_def)

lemma hasTranslation_en_never_true: "hasTranslation zhCN cur key (Some En) \<noteq> Inr True"
  using has_walk_leaf [of "split_dot key" "[]"]
  by (cases "split_dot key") (auto simp: hasTranslation_def)

text \<open>
  Claim C10 does not hold of the code for every key: the English dictionary \<^verbatim>\<open>{}\<close> is an
  ordinary object too, and on the key \<^verbatim>\<open>__proto__.__proto__.x\<close> the walk of
  \<^verbatim>\<open>hasTranslation\<close> reaches \<^verbatim>\<open>null\<close> and throws a \<^verbatim>\<open>TypeError\<close> where the claim has
  it return false.
\<close>

theorem hasTranslation_en_throws_on_null_prototype:
  "hasTranslation zhCN cur ''__proto__.__proto__.x'' (Some En) = Inl TypeError"
  by (simp add: hasTranslation_def object_prototype_keys_def)

end
